theory Spec2Isabelle
  imports Complex_Main "HOL-Library.Multiset"
begin

section \<open>Python strings\<close>

text \<open>
  The four evaluation scripts (\<^verbatim>\<open>eval.py\<close>, \<^verbatim>\<open>eval1.py\<close>, \<^verbatim>\<open>eval2.py\<close>,
  \<^verbatim>\<open>evaltable.py\<close>) work on Python \<^verbatim>\<open>str\<close> values.  They are modelled as
  \<^typ>\<open>string\<close>, one \<^typ>\<open>char\<close> per character; on ASCII text this is exactly the
  Python string, and the functions of this section are Python's on such text.  The
  few characters outside ASCII in the scripts' own messages stand as their UTF-8
  bytes.  An exception is represented by its message, the text that \<^verbatim>\<open>f"{e}"\<close>
  prints.
\<close>

type_synonym exn = string

text \<open>\<^verbatim>\<open>str.lower()\<close>, on the ASCII letters.\<close>

definition lower_char :: "char \<Rightarrow> char" where
  "lower_char c =
     (case map_of (zip ''ABCDEFGHIJKLMNOPQRSTUVWXYZ'' ''abcdefghijklmnopqrstuvwxyz'') c of
        Some d \<Rightarrow> d
      | None \<Rightarrow> c)"

definition lower :: "string \<Rightarrow> string" where
  "lower s = map lower_char s"

text \<open>
  \<^verbatim>\<open>s.split(d)\<close> for a one-character separator: the pieces between the separators,
  never an empty list.
\<close>

fun split :: "char \<Rightarrow> string \<Rightarrow> string list" where
  "split d [] = [[]]"
| "split d (c # cs) =
     (if c = d then [] # split d cs
      else (case split d cs of
              [] \<Rightarrow> [[c]]
            | p # ps \<Rightarrow> (c # p) # ps))"

text \<open>
  \<^verbatim>\<open>str.strip()\<close>: the characters for which \<^verbatim>\<open>str.isspace()\<close> holds are removed
  from both ends.  In ASCII these are tab, line feed, vertical tab, form feed,
  carriage return, the four separators \<^verbatim>\<open>0x1c\<close> to \<^verbatim>\<open>0x1f\<close> and the space.
\<close>

definition whitespace :: "char list" where
  "whitespace =
     [CHR 0x09, CHR 0x0A, CHR 0x0B, CHR 0x0C, CHR 0x0D,
      CHR 0x1C, CHR 0x1D, CHR 0x1E, CHR 0x1F, CHR 0x20]"

definition isspace :: "char \<Rightarrow> bool" where
  "isspace c = (c \<in> set whitespace)"

definition strip :: "string \<Rightarrow> string" where
  "strip s = rev (dropWhile isspace (rev (dropWhile isspace s)))"

text \<open>\<^verbatim>\<open>sep.join(xs)\<close>.\<close>

fun join :: "string \<Rightarrow> string list \<Rightarrow> string" where
  "join sep [] = []"
| "join sep [x] = x"
| "join sep (x # y # ys) = x @ sep @ join sep (y # ys)"

text \<open>
  \<^verbatim>\<open>s.replace(old, new)\<close> for a non-empty \<^verbatim>\<open>old\<close>: every occurrence, found from the
  left and not overlapping, is replaced.
\<close>

function replace :: "string \<Rightarrow> string \<Rightarrow> string \<Rightarrow> string" where
  "replace old new [] = []"
| "replace old new (c # cs) =
     (if old \<noteq> [] \<and> take (length old) (c # cs) = old
      then new @ replace old new (drop (length old) (c # cs))
      else c # replace old new cs)"
  by pat_completeness auto
termination
  by (relation "measure (\<lambda>(old, new, s). length s)") auto


section \<open>Per-file text extraction\<close>

text \<open>
  \<^verbatim>\<open>extract_submission_text(upload_file)\<close> unpacks the archive into a temporary
  directory and walks it.  The format readers are external libraries; what each of
  them returns for a file is part of the file's description.  \<^verbatim>\<open>Inl e\<close> is a call
  that raised an exception with message \<^verbatim>\<open>e\<close>.

  \<^item> \<open>fname\<close>: the base name \<^verbatim>\<open>f\<close> that \<^verbatim>\<open>os.walk\<close> yields;
  \<^item> \<open>read_utf8\<close>: \<^verbatim>\<open>open(path, encoding="utf-8").read()\<close>;
  \<^item> \<open>pdfminer\<close>: \<^verbatim>\<open>extract_text(path)\<close>;
  \<^item> \<open>fitz\<close>: \<^verbatim>\<open>fitz.open(path)\<close> and \<^verbatim>\<open>page.get_text("text")\<close> of every page;
  \<^item> \<open>docx2txt\<close>: \<^verbatim>\<open>docx2txt.process(path)\<close>;
  \<^item> \<open>pptx\<close>: \<^verbatim>\<open>Presentation(path)\<close>: the slides, each the list of its shapes, a
    shape being \<^verbatim>\<open>Some\<close> of its text when it has the attribute \<^verbatim>\<open>text\<close>.
\<close>

record member =
  fname :: string
  read_utf8 :: "exn + string"
  pdfminer :: "exn + string"
  fitz :: "exn + string list"
  docx2txt :: "exn + string"
  pptx :: "exn + string option list list"

text \<open>
  An uploaded archive: its file name, and what \<^verbatim>\<open>zipfile.ZipFile(...)\<close>,
  \<^verbatim>\<open>extractall\<close> and \<^verbatim>\<open>os.walk\<close> give: the files in traversal order, or the exception
  raised before the first file is looked at (a file that is no archive).
\<close>

record upload =
  name :: string
  unzipped :: "exn + member list"

text \<open>The scripts differ in a few places of the extractor, the prompt and the loop.\<close>

datatype variant = Eval | Eval1 | Eval2 | Evaltable

text \<open>\<^verbatim>\<open>ext = f.lower().split(".")[-1]\<close>\<close>

definition ext :: "string \<Rightarrow> string" where
  "ext f = last (split (CHR ''.'') (lower f))"

text \<open>\<^verbatim>\<open>f"\n\n[FILE: {f}{tag}]\n"\<close>, the line that opens every block.\<close>

definition header :: "string \<Rightarrow> string \<Rightarrow> string" where
  "header f tag = ''\<newline>\<newline>[FILE: '' @ f @ tag @ '']\<newline>''"

text \<open>
  The PDF branch: \<^verbatim>\<open>pdfminer\<close> first; when it raises, or returns fewer than 20
  characters after stripping, the inner \<^verbatim>\<open>except\<close> falls back to PyMuPDF, whose
  exception is not caught there.
\<close>

definition pdf_text :: "member \<Rightarrow> exn + string" where
  "pdf_text f =
     (let fallback = (case fitz f of Inl e \<Rightarrow> Inl e | Inr pages \<Rightarrow> Inr (concat pages))
      in case pdfminer f of
           Inl _ \<Rightarrow> fallback
         | Inr text \<Rightarrow> if length (strip text) < 20 then fallback else Inr text)"

text \<open>
  The slide branch: \<^verbatim>\<open>eval.py\<close> collects the texts and joins them with newlines; the
  other scripts append each text followed by a newline.
\<close>

definition shape_texts :: "string option list list \<Rightarrow> string list" where
  "shape_texts slides = List.map_filter id (concat slides)"

definition slides_text :: "variant \<Rightarrow> string option list list \<Rightarrow> string" where
  "slides_text v slides =
     (case v of
        Eval \<Rightarrow> join ''\<newline>'' (shape_texts slides)
      | _ \<Rightarrow> concat (map (\<lambda>t. t @ ''\<newline>'') (shape_texts slides)))"

text \<open>
  The note written for a video file.  The dashes of the source are outside ASCII and
  are written as their UTF-8 bytes.
\<close>

definition video_note :: "variant \<Rightarrow> string" where
  "video_note v =
     (case v of
        Eval \<Rightarrow> ''(Video file detected '' @ [CHR 0xE2, CHR 0x80, CHR 0x94]
                 @ '' textual content not extracted)''
      | Eval1 \<Rightarrow> ''(Video file detected '' @ [CHR 0xE2, CHR 0x80, CHR 0x94]
                 @ '' textual content not extracted.)''
      | _ \<Rightarrow> ''(Video detected '' @ [CHR 0xE2, CHR 0x80, CHR 0x93]
                 @ '' textual content skipped.)'')"

text \<open>
  The final \<^verbatim>\<open>else\<close> of the chain: \<^verbatim>\<open>eval.py\<close> and \<^verbatim>\<open>eval1.py\<close> write a marker,
  \<^verbatim>\<open>eval2.py\<close> and \<^verbatim>\<open>evaltable.py\<close> have no such branch.
\<close>

definition unsupported :: "variant \<Rightarrow> string \<Rightarrow> string" where
  "unsupported v f =
     (case v of
        Eval \<Rightarrow> header f '' - SKIPPED'' @ ''Unsupported file type.''
      | Eval1 \<Rightarrow> header f '' - SKIPPED'' @ ''Unsupported file type.''
      | Eval2 \<Rightarrow> []
      | Evaltable \<Rightarrow> [])"

text \<open>
  The body of the \<^verbatim>\<open>try\<close>, for one file: the value of \<^verbatim>\<open>submission_text\<close> when the
  body is left, and the exception if it is left by one.  A branch that writes its
  header in a statement of its own has written it when the reader raises.
\<close>

definition try_body :: "variant \<Rightarrow> string \<Rightarrow> member \<Rightarrow> string \<times> exn option" where
  "try_body v submission_text f =
     (if ext (fname f) = ''py'' then
        (case read_utf8 f of
           Inl e \<Rightarrow> (submission_text, Some e)
         | Inr t \<Rightarrow> (submission_text @ header (fname f) '' - CODE'' @ t, None))
      else if ext (fname f) = ''pdf'' then
        (case pdf_text f of
           Inl e \<Rightarrow> (submission_text @ header (fname f) '' - DOCUMENT'', Some e)
         | Inr text \<Rightarrow> (submission_text @ header (fname f) '' - DOCUMENT'' @ text, None))
      else if ext (fname f) = ''docx'' then
        (case docx2txt f of
           Inl e \<Rightarrow> (submission_text, Some e)
         | Inr t \<Rightarrow> (submission_text @ header (fname f) '' - DOCUMENT'' @ t, None))
      else if ext (fname f) = ''pptx'' then
        (case pptx f of
           Inl e \<Rightarrow> (submission_text @ header (fname f) '' - SLIDES'', Some e)
         | Inr slides \<Rightarrow>
             (submission_text @ header (fname f) '' - SLIDES'' @ slides_text v slides, None))
      else if ext (fname f) \<in> set [''txt'', ''md''] then
        (case read_utf8 f of
           Inl e \<Rightarrow> (submission_text, Some e)
         | Inr t \<Rightarrow> (submission_text @ header (fname f) '''' @ t, None))
      else if ext (fname f) \<in> set [''mp4'', ''mov'', ''mkv''] then
        (submission_text @ header (fname f) '' - VIDEO'' @ video_note v, None)
      else (submission_text @ unsupported v (fname f), None))"

text \<open>
  The \<^verbatim>\<open>try\<close> with its handler
  \<^verbatim>\<open>except Exception as e: submission_text += f"\n\n[FILE: {f} - ERROR]\nCould not read this file ({e})"\<close>.
\<close>

definition error_marker :: "string \<Rightarrow> exn \<Rightarrow> string" where
  "error_marker f e = header f '' - ERROR'' @ ''Could not read this file ('' @ e @ '')''"

definition process_file :: "variant \<Rightarrow> string \<Rightarrow> member \<Rightarrow> string" where
  "process_file v submission_text f =
     (case try_body v submission_text f of
        (t, None) \<Rightarrow> t
      | (t, Some e) \<Rightarrow> t @ error_marker (fname f) e)"

text \<open>The loop over the files of the walk.\<close>

fun walk_files :: "variant \<Rightarrow> string \<Rightarrow> member list \<Rightarrow> string" where
  "walk_files v submission_text [] = submission_text"
| "walk_files v submission_text (f # files) =
     walk_files v (process_file v submission_text f) files"

definition extract_submission_text :: "variant \<Rightarrow> upload \<Rightarrow> exn + string" where
  "extract_submission_text v upload_file =
     (case unzipped upload_file of
        Inl e \<Rightarrow> Inl e
      | Inr files \<Rightarrow> Inr (strip (walk_files v [] files)))"

text \<open>
  The branch the chain takes, as a function of the extension alone, and the list of
  the extensions that have a branch of their own.
\<close>

datatype category = Code | Pdf | Docx | Slides | Note | Video | Unsupported

definition category_of :: "string \<Rightarrow> category" where
  "category_of e =
     (if e = ''py'' then Code
      else if e = ''pdf'' then Pdf
      else if e = ''docx'' then Docx
      else if e = ''pptx'' then Slides
      else if e \<in> set [''txt'', ''md''] then Note
      else if e \<in> set [''mp4'', ''mov'', ''mkv''] then Video
      else Unsupported)"

definition supported :: "string list" where
  "supported = [''py'', ''pdf'', ''docx'', ''pptx'', ''txt'', ''md'', ''mp4'', ''mov'', ''mkv'']"

text \<open>A file none of whose readers succeeds: a sample for the examples below.\<close>

definition unreadable :: "string \<Rightarrow> exn \<Rightarrow> member" where
  "unreadable f e =
     \<lparr>fname = f, read_utf8 = Inl e, pdfminer = Inl e, fitz = Inl e, docx2txt = Inl e,
      pptx = Inl e\<rparr>"



section \<open>The evaluation prompt\<close>

text \<open>
  \<^verbatim>\<open>evaluate_submission\<close> builds the prompt as an f-string: a fixed text, the rubric, a
  fixed text, \<^verbatim>\<open>submission_text[:20000]\<close>, a fixed text.  The three fixed texts of each
  script follow, character by character (\<^verbatim>\<open>{{\<close> and \<^verbatim>\<open>}}\<close> of the f-string are single
  braces); characters outside ASCII are written as their UTF-8 bytes.
\<close>

definition prompt_head :: "variant \<Rightarrow> string" where
  \<open>prompt_head v =
     (case v of
        Eval \<Rightarrow>
          ''\<newline>''
        @ ''You are an impartial AI evaluator for hackathon submissions.\<newline>''
        @ ''Evaluate the following submission strictly according to the given scoring rubric.\<newline>''
        @ ''\<newline>''
        @ ''Rubric:\<newline>''
      | Eval1 \<Rightarrow>
          ''\<newline>''
        @ ''You are an impartial AI evaluator for hackathon submissions.\<newline>''
        @ ''also respond/dont \<newline>''
        @ ''Evaluate the following submission according to this rubric:\<newline>''
      | Eval2 \<Rightarrow>
          ''\<newline>''
        @ ''You are an impartial AI evaluator for hackathon submissions.\<newline>''
        @ ''\<newline>''
        @ ''Evaluate the following submission using the given rubric:\<newline>''
      | Evaltable \<Rightarrow>
          ''\<newline>''
        @ ''You are an impartial AI evaluator for hackathon submissions.\<newline>''
        @ ''\<newline>''
        @ ''Follow these **Quadril Quidelins** before scoring:\<newline>''
        @ ''1'' @ [CHR 0xEF, CHR 0xB8, CHR 0x8F] @ [CHR 0xE2, CHR 0x83, CHR 0xA3] @ '' Relevance Filter '' @ [CHR 0xE2, CHR 0x80, CHR 0x94] @ '' Evaluate only if content clearly represents a hackathon project (code, model, architecture, documentation, or demo).\<newline>''
        @ ''2'' @ [CHR 0xEF, CHR 0xB8, CHR 0x8F] @ [CHR 0xE2, CHR 0x83, CHR 0xA3] @ '' Authenticity Check '' @ [CHR 0xE2, CHR 0x80, CHR 0x94] @ '' Ignore resumes, certificates, or unrelated academic text.\<newline>''
        @ ''3'' @ [CHR 0xEF, CHR 0xB8, CHR 0x8F] @ [CHR 0xE2, CHR 0x83, CHR 0xA3] @ '' Technical Substance '' @ [CHR 0xE2, CHR 0x80, CHR 0x94] @ '' Evaluate only if it shows code, logic, or architecture for a real problem statement.\<newline>''
        @ ''4'' @ [CHR 0xEF, CHR 0xB8, CHR 0x8F] @ [CHR 0xE2, CHR 0x83, CHR 0xA3] @ '' Evaluation Readiness '' @ [CHR 0xE2, CHR 0x80, CHR 0x94] @ '' If not valid, output:\<newline>''
        @ ''{\<newline>''
        @ ''  "status": "Invalid Submission",\<newline>''
        @ ''  "reason": "Submission does not appear to contain a hackathon solution or technical content."\<newline>''
        @ ''}\<newline>''
        @ ''\<newline>''
        @ ''If valid, evaluate it using this rubric:\<newline>'')\<close>

definition prompt_mid :: "variant \<Rightarrow> string" where
  \<open>prompt_mid v =
     (case v of
        Eval \<Rightarrow>
          ''\<newline>''
        @ ''\<newline>''
        @ ''Submission:\<newline>''
      | Eval1 \<Rightarrow>
          ''\<newline>''
        @ ''\<newline>''
        @ ''Submission:\<newline>''
      | Eval2 \<Rightarrow>
          ''\<newline>''
        @ ''\<newline>''
        @ ''Submission:\<newline>''
      | Evaltable \<Rightarrow>
          ''\<newline>''
        @ ''\<newline>''
        @ ''Submission:\<newline>'')\<close>

definition prompt_tail :: "variant \<Rightarrow> string" where
  \<open>prompt_tail v =
     (case v of
        Eval \<Rightarrow>
          ''  # Truncate to avoid token overflow\<newline>''
        @ ''\<newline>''
        @ ''Return a JSON in this exact format:\<newline>''
        @ ''{\<newline>''
        @ '' "criteria": [\<newline>''
        @ ''  {"name": "Design & UI", "score": <0-10>, "reason": "<why>"},\<newline>''
        @ ''  {"name": "Functionality", "score": <0-10>, "reason": "<why>"},\<newline>''
        @ ''  {"name": "Innovation", "score": <0-10>, "reason": "<why>"},\<newline>''
        @ ''  {"name": "Feasibility", "score": <0-10>, "reason": "<why>"},\<newline>''
        @ ''  {"name": "Presentation", "score": <0-10>, "reason": "<why>"}\<newline>''
        @ '' ],\<newline>''
        @ '' "total_score": <avg_of_scores>,\<newline>''
        @ '' "summary": "<1-2 line justification>"\<newline>''
        @ ''}\<newline>''
        @ ''    ''
      | Eval1 \<Rightarrow>
          ''\<newline>''
        @ ''\<newline>''
        @ ''Return a JSON in this exact format:\<newline>''
        @ ''{\<newline>''
        @ ''  "criteria": [\<newline>''
        @ ''    {"name": "Relevance to the Problem and Tech Landscape", "score": <0-30>, "reason": "<why>"},\<newline>''
        @ ''    {"name": "Innovation and Creativity", "score": <0-15>, "reason": "<why>"},\<newline>''
        @ ''    {"name": "Feasibility and Scalability", "score": <0-15>, "reason": "<why>"},\<newline>''
        @ ''    {"name": "Usage of GenAI and AI/ML Techniques", "score": <0-20>, "reason": "<why>"},\<newline>''
        @ ''    {"name": "Teamwork and Presentation Quality", "score": <0-20>, "reason": "<why>"}\<newline>''
        @ ''  ],\<newline>''
        @ ''  "total_score": <sum_of_scores_out_of_100>,\<newline>''
        @ ''  "summary": "<1-2 line justification>"\<newline>''
        @ ''}\<newline>''
        @ ''    ''
      | Eval2 \<Rightarrow>
          ''\<newline>''
        @ ''\<newline>''
        @ ''Return a JSON in this exact format:\<newline>''
        @ ''{\<newline>''
        @ ''  "criteria": [\<newline>''
        @ ''    {"name": "Relevance to the Problem and Tech Landscape", "score": <0-30>, "reason": "<why>"},\<newline>''
        @ ''    {"name": "Innovation and Creativity", "score": <0-15>, "reason": "<why>"},\<newline>''
        @ ''    {"name": "Feasibility and Scalability", "score": <0-15>, "reason": "<why>"},\<newline>''
        @ ''    {"name": "Usage of GenAI and AI/ML Techniques", "score": <0-20>, "reason": "<why>"},\<newline>''
        @ ''    {"name": "Teamwork and Presentation Quality", "score": <0-20>, "reason": "<why>"}\<newline>''
        @ ''  ],\<newline>''
        @ ''  "total_score": <sum_out_of_100>,\<newline>''
        @ ''  "summary": "<short justification>"\<newline>''
        @ ''}\<newline>''
        @ ''    ''
      | Evaltable \<Rightarrow>
          ''\<newline>''
        @ ''\<newline>''
        @ ''Return output strictly in JSON format:\<newline>''
        @ ''{\<newline>''
        @ ''  "status": "Valid Submission",\<newline>''
        @ ''  "criteria": [\<newline>''
        @ ''    {"name": "Relevance to the Problem and Tech Landscape", "score": <0-30>, "reason": "<why>"},\<newline>''
        @ ''    {"name": "Innovation and Creativity", "score": <0-15>, "reason": "<why>"},\<newline>''
        @ ''    {"name": "Feasibility and Scalability", "score": <0-15>, "reason": "<why>"},\<newline>''
        @ ''    {"name": "Usage of GenAI and AI/ML Techniques", "score": <0-20>, "reason": "<why>"},\<newline>''
        @ ''    {"name": "Teamwork and Presentation Quality", "score": <0-20>, "reason": "<why>"}\<newline>''
        @ ''  ],\<newline>''
        @ ''  "total_score": <sum_out_of_100>,\<newline>''
        @ ''  "summary": "<1-2 line justification>"\<newline>''
        @ ''}\<newline>''
        @ ''    '')\<close>


definition prompt :: "variant \<Rightarrow> string \<Rightarrow> string \<Rightarrow> string" where
  "prompt v rubric_text submission_text =
     prompt_head v @ rubric_text @ prompt_mid v @ take 20000 submission_text @ prompt_tail v"


section \<open>Python floats\<close>

text \<open>
  A Python \<^verbatim>\<open>float\<close> is an IEEE 754 double.  \<open>Finite r\<close> is the finite double whose
  exact value is the rational \<open>r\<close>, \<open>Finite 0\<close> being \<^verbatim>\<open>0.0\<close>; \<open>NegZero\<close> is
  \<^verbatim>\<open>-0.0\<close>; \<open>PInf\<close>, \<open>NInf\<close> and \<open>NaN\<close> are \<^verbatim>\<open>inf\<close>, \<^verbatim>\<open>-inf\<close> and \<^verbatim>\<open>nan\<close>, which
  \<^verbatim>\<open>json.loads\<close> accepts as \<^verbatim>\<open>Infinity\<close>, \<^verbatim>\<open>-Infinity\<close> and \<^verbatim>\<open>NaN\<close>.
\<close>

datatype pyfloat = Finite rat | NegZero | PInf | NInf | NaN

text \<open>\<^verbatim>\<open>int.bit_length()\<close> of a positive integer.\<close>

function bit_length :: "int \<Rightarrow> nat" where
  "bit_length n = (if n \<le> 0 then 0 else Suc (bit_length (n div 2)))"
  by pat_completeness auto
termination
  by (relation "measure nat") auto

declare bit_length.simps [simp del]

definition pow2 :: "int \<Rightarrow> rat" where
  "pow2 e = (if 0 \<le> e then 2 ^ nat e else 1 / 2 ^ nat (- e))"

text \<open>The integer part of the binary logarithm of a positive rational.\<close>

definition ilog2 :: "rat \<Rightarrow> int" where
  "ilog2 a =
     (case quotient_of a of (n, d) \<Rightarrow>
        let k = int (bit_length n) - int (bit_length d)
        in if pow2 k \<le> a then k else k - 1)"

text \<open>Rounding to the nearest integer, a tie going to the even one.\<close>

definition round_half_even :: "rat \<Rightarrow> int" where
  "round_half_even x =
     (let f = \<lfloor>x\<rfloor>; r = x - of_int f
      in if r < 1 / 2 then f else if 1 / 2 < r then f + 1 else if even f then f else f + 1)"

text \<open>
  The double nearest to a rational, ties to even, as every arithmetic operation on
  floats rounds its exact result.  The significand has 53 bits, so a value of size
  between \<open>pow2 k\<close> and \<open>pow2 (k + 1)\<close> is rounded to a multiple \<open>m\<close> of \<open>pow2 (k - 52)\<close>,
  and no double is finer than \<open>pow2 (- 1074)\<close>.  A result of size \<open>pow2 1024\<close> or more
  overflows to an infinity; the size \<open>m * pow2 e\<close> reaches \<open>pow2 1024\<close> exactly when
  \<open>e\<close> plus the bit length of \<open>m\<close> exceeds 1024.
  A negative value that rounds to zero gives \<^verbatim>\<open>-0.0\<close>.
\<close>

definition nearest_double :: "rat \<Rightarrow> pyfloat" where
  "nearest_double x =
     (if x = 0 then Finite 0
      else
        let a = \<bar>x\<bar>;
            e = max (ilog2 a - 52) (- 1074);
            m = round_half_even (a / pow2 e);
            v = of_int m * pow2 e
        in if m = 0 then (if x < 0 then NegZero else Finite 0)
           else if 1024 < e + int (bit_length m) then (if x < 0 then NInf else PInf)
           else Finite (if x < 0 then - v else v))"

text \<open>\<^verbatim>\<open>x <= k\<close> for a float \<open>x\<close> and a number \<open>k\<close>; Python compares the exact values.\<close>

fun float_le :: "pyfloat \<Rightarrow> rat \<Rightarrow> bool" where
  "float_le (Finite r) k = (r \<le> k)"
| "float_le NegZero k = (0 \<le> k)"
| "float_le PInf k = False"
| "float_le NInf k = True"
| "float_le NaN k = False"

text \<open>\<^verbatim>\<open>x * k\<close> for a float \<open>x\<close> and a positive number \<open>k\<close> that is a double (10 and 3 below).\<close>

fun float_mul :: "pyfloat \<Rightarrow> rat \<Rightarrow> pyfloat" where
  "float_mul (Finite r) k = nearest_double (r * k)"
| "float_mul NegZero k = NegZero"
| "float_mul PInf k = PInf"
| "float_mul NInf k = NInf"
| "float_mul NaN k = NaN"



section \<open>Decoded replies\<close>

text \<open>
  What \<^verbatim>\<open>json.loads\<close> returns: \<^verbatim>\<open>None\<close>, \<^verbatim>\<open>bool\<close>, \<^verbatim>\<open>int\<close>, \<^verbatim>\<open>float\<close>, \<^verbatim>\<open>str\<close>, \<^verbatim>\<open>list\<close>
  and \<^verbatim>\<open>dict\<close> values.  A \<^verbatim>\<open>dict\<close> is the list of its items in insertion order, with
  distinct keys; \<^verbatim>\<open>d.get(k)\<close> is \<^term>\<open>map_of d k\<close>.  A JSON number without fraction and
  exponent is a Python \<^verbatim>\<open>int\<close>, unbounded; any other is a \<^verbatim>\<open>float\<close>.
\<close>

datatype json =
    JNull
  | JBool bool
  | JInt int
  | JFloat pyfloat
  | JStr string
  | JArr "json list"
  | JObj "(string \<times> json) list"

type_synonym pydict = "(string \<times> json) list"

text \<open>\<^verbatim>\<open>d.get(k, dflt)\<close>\<close>

definition dict_get :: "pydict \<Rightarrow> string \<Rightarrow> json \<Rightarrow> json" where
  "dict_get d k dflt = (case map_of d k of Some v \<Rightarrow> v | None \<Rightarrow> dflt)"

text \<open>
  \<^verbatim>\<open>json.loads\<close> is applied only to a text that starts with a brace, where it returns a
  \<^verbatim>\<open>dict\<close> or raises: \<^verbatim>\<open>json.JSONDecodeError\<close> for a malformed text, and otherwise
  some other exception (a \<^verbatim>\<open>RecursionError\<close> on very deep nesting).  The decoder is an
  external function and is a parameter of everything below.
\<close>

datatype decoded = Decoded pydict | JSONDecodeError | OtherError exn


section \<open>Tolerant parsing of the reply\<close>

text \<open>
  \<^verbatim>\<open>re.search(r"\{[\s\S]*\}", raw)\<close> and \<^verbatim>\<open>group(0)\<close>.  The search takes the leftmost
  position where the pattern matches: the first \<^verbatim>\<open>{\<close>, if a \<^verbatim>\<open>}\<close> stands anywhere
  after it (if none does, none stands after a later \<^verbatim>\<open>{\<close> either).  The star is greedy
  and \<^verbatim>\<open>[\s\S]\<close> matches every character, so the match runs to the last \<^verbatim>\<open>}\<close>.
\<close>

definition json_match :: "string \<Rightarrow> string option" where
  "json_match raw =
     (case dropWhile (\<lambda>c. c \<noteq> CHR ''{'') raw of
        [] \<Rightarrow> None
      | b # rest \<Rightarrow>
          if CHR ''}'' \<in> set rest
          then Some (b # rev (dropWhile (\<lambda>c. c \<noteq> CHR ''}'') (rev rest)))
          else None)"

text \<open>
  The end of \<^verbatim>\<open>evaluate_submission\<close> in \<^verbatim>\<open>eval2.py\<close> and \<^verbatim>\<open>evaltable.py\<close>: the decoded
  \<^verbatim>\<open>dict\<close>, or \<^verbatim>\<open>{"error": "Invalid JSON", "raw": raw}\<close> when nothing matches or the
  decoder raises (a bare \<^verbatim>\<open>except: pass\<close>).
\<close>

definition invalid_json :: "string \<Rightarrow> pydict" where
  "invalid_json raw = [(''error'', JStr ''Invalid JSON''), (''raw'', JStr raw)]"

definition parse_reply :: "(string \<Rightarrow> decoded) \<Rightarrow> string \<Rightarrow> pydict" where
  "parse_reply json_loads raw =
     (case json_match raw of
        None \<Rightarrow> invalid_json raw
      | Some m \<Rightarrow>
          (case json_loads m of
             Decoded d \<Rightarrow> d
           | JSONDecodeError \<Rightarrow> invalid_json raw
           | OtherError e \<Rightarrow> invalid_json raw))"

text \<open>
  The same step in the workflow of \<^verbatim>\<open>eval.py\<close> and \<^verbatim>\<open>eval1.py\<close>: \<^verbatim>\<open>parsed\<close> is the
  \<^verbatim>\<open>dict\<close> or \<^verbatim>\<open>None\<close>; only \<^verbatim>\<open>json.JSONDecodeError\<close> is caught.
\<close>

definition parsed :: "(string \<Rightarrow> decoded) \<Rightarrow> string \<Rightarrow> exn + pydict option" where
  "parsed json_loads raw =
     (case json_match raw of
        None \<Rightarrow> Inr None
      | Some m \<Rightarrow>
          (case json_loads m of
             Decoded d \<Rightarrow> Inr (Some d)
           | JSONDecodeError \<Rightarrow> Inr None
           | OtherError e \<Rightarrow> Inl e))"

text \<open>
  The format every prompt asks for: a list \<^verbatim>\<open>criteria\<close> of objects with \<^verbatim>\<open>name\<close>,
  \<^verbatim>\<open>score\<close> and \<^verbatim>\<open>reason\<close>, a \<^verbatim>\<open>total_score\<close> and a \<^verbatim>\<open>summary\<close>.
\<close>

fun is_criterion :: "json \<Rightarrow> bool" where
  "is_criterion (JObj c) =
     (map_of c ''name'' \<noteq> None \<and> map_of c ''score'' \<noteq> None \<and> map_of c ''reason'' \<noteq> None)"
| "is_criterion _ = False"

definition matches_schema :: "pydict \<Rightarrow> bool" where
  "matches_schema d =
     ((case map_of d ''criteria'' of Some (JArr cs) \<Rightarrow> list_all is_criterion cs | _ \<Rightarrow> False)
      \<and> map_of d ''total_score'' \<noteq> None \<and> map_of d ''summary'' \<noteq> None)"


section \<open>Score normalisation\<close>

text \<open>
  \<^verbatim>\<open>eval1.py\<close>, after a successful parse:
  \<^verbatim>\<open>if isinstance(total_score, (int, float)) and total_score <= 10: total_score = total_score * 10\<close>.
  A \<^verbatim>\<open>bool\<close> is an \<^verbatim>\<open>int\<close> in Python (\<^verbatim>\<open>True\<close> is 1), so it passes the test too.  The
  product of an \<^verbatim>\<open>int\<close> is exact, that of a \<^verbatim>\<open>float\<close> is rounded to a double.
\<close>

fun rescale_total :: "json \<Rightarrow> json" where
  "rescale_total (JInt n) = (if n \<le> 10 then JInt (n * 10) else JInt n)"
| "rescale_total (JBool b) = JInt ((if b then 1 else 0) * 10)"
| "rescale_total (JFloat x) = (if float_le x 10 then JFloat (float_mul x 10) else JFloat x)"
| "rescale_total v = v"

text \<open>\<^verbatim>\<open>total_score = parsed.get("total_score", "N/A")\<close>, then the rescaling.\<close>

definition total_score :: "pydict \<Rightarrow> json" where
  "total_score p = rescale_total (dict_get p ''total_score'' (JStr ''N/A''))"



section \<open>The loop over the submissions\<close>

text \<open>
  The remote model and the decoder.  \<open>invoke\<close> is \<^verbatim>\<open>llm.invoke(prompt)\<close> followed by
  \<^verbatim>\<open>getattr(result, "content", None) or str(result)\<close>: the reply text \<^verbatim>\<open>raw\<close>, or the
  exception of a failed call.
\<close>

record services =
  invoke :: "string \<Rightarrow> exn + string"
  json_loads :: "string \<Rightarrow> decoded"

text \<open>\<^verbatim>\<open>evaluate_submission\<close> of \<^verbatim>\<open>eval2.py\<close> and \<^verbatim>\<open>evaltable.py\<close>; \<open>v\<close> selects the prompt.\<close>

definition evaluate_submission ::
    "variant \<Rightarrow> services \<Rightarrow> string \<Rightarrow> string \<Rightarrow> exn + pydict" where
  "evaluate_submission v env rubric_text submission_text =
     (case invoke env (prompt v rubric_text submission_text) of
        Inl e \<Rightarrow> Inl e
      | Inr raw \<Rightarrow> Inr (parse_reply (json_loads env) raw))"

text \<open>An element of \<^verbatim>\<open>all_results\<close>.\<close>

record 's entry =
  Team_Name :: string
  Score :: 's
  Summary :: json
  Details :: pydict

text \<open>The handler \<^verbatim>\<open>except Exception as e\<close> of the loop appends this entry.\<close>

definition error_entry :: "upload \<Rightarrow> exn \<Rightarrow> json entry" where
  "error_entry upload_file e =
     \<lparr>Team_Name = name upload_file, Score = JInt 0, Summary = JStr (''Error: '' @ e),
      Details = []\<rparr>"

text \<open>
  The body of the \<^verbatim>\<open>try\<close> in \<^verbatim>\<open>eval2.py\<close>: the entry to append, or the exception
  raised by the extraction or by the remote call.
\<close>

definition eval2_try :: "services \<Rightarrow> string \<Rightarrow> upload \<Rightarrow> exn + json entry" where
  "eval2_try env rubric_text upload_file =
     (case extract_submission_text Eval2 upload_file of
        Inl e \<Rightarrow> Inl e
      | Inr submission_text \<Rightarrow>
          (case evaluate_submission Eval2 env rubric_text submission_text of
             Inl e \<Rightarrow> Inl e
           | Inr result \<Rightarrow>
               Inr \<lparr>Team_Name = replace ''.zip'' '''' (name upload_file),
                    Score = (case map_of result ''total_score'' of Some tot \<Rightarrow> tot | None \<Rightarrow> JInt 0),
                    Summary = dict_get result ''summary'' (JStr ''No summary''),
                    Details = result\<rparr>))"

fun eval2_loop :: "services \<Rightarrow> string \<Rightarrow> json entry list \<Rightarrow> upload list \<Rightarrow> json entry list" where
  "eval2_loop env rubric_text all_results [] = all_results"
| "eval2_loop env rubric_text all_results (upload_file # uploads) =
     eval2_loop env rubric_text
       (case eval2_try env rubric_text upload_file of
          Inl e \<Rightarrow> all_results @ [error_entry upload_file e]
        | Inr r \<Rightarrow> all_results @ [r])
       uploads"

definition eval2_results :: "services \<Rightarrow> string \<Rightarrow> upload list \<Rightarrow> json entry list" where
  "eval2_results env rubric_text uploads = eval2_loop env rubric_text [] uploads"

text \<open>
  The body of the \<^verbatim>\<open>try\<close> in \<^verbatim>\<open>evaltable.py\<close>: \<open>Inr None\<close> is the \<^verbatim>\<open>continue\<close> taken
  when \<^verbatim>\<open>result.get("status") == "Invalid Submission"\<close>.
\<close>

definition evaltable_try :: "services \<Rightarrow> string \<Rightarrow> upload \<Rightarrow> exn + json entry option" where
  "evaltable_try env rubric_text upload_file =
     (case extract_submission_text Evaltable upload_file of
        Inl e \<Rightarrow> Inl e
      | Inr submission_text \<Rightarrow>
          (case evaluate_submission Evaltable env rubric_text submission_text of
             Inl e \<Rightarrow> Inl e
           | Inr result \<Rightarrow>
               if map_of result ''status'' = Some (JStr ''Invalid Submission'') then Inr None
               else Inr (Some
                 \<lparr>Team_Name = replace ''.zip'' '''' (name upload_file),
                  Score = dict_get result ''total_score'' (JInt 0),
                  Summary = dict_get result ''summary'' (JStr ''No summary''),
                  Details = result\<rparr>)))"

fun evaltable_loop ::
    "services \<Rightarrow> string \<Rightarrow> json entry list \<Rightarrow> upload list \<Rightarrow> json entry list" where
  "evaltable_loop env rubric_text all_results [] = all_results"
| "evaltable_loop env rubric_text all_results (upload_file # uploads) =
     evaltable_loop env rubric_text
       (case evaltable_try env rubric_text upload_file of
          Inl e \<Rightarrow> all_results @ [error_entry upload_file e]
        | Inr None \<Rightarrow> all_results
        | Inr (Some r) \<Rightarrow> all_results @ [r])
       uploads"

definition evaltable_results :: "services \<Rightarrow> string \<Rightarrow> upload list \<Rightarrow> json entry list" where
  "evaltable_results env rubric_text uploads = evaltable_loop env rubric_text [] uploads"


section \<open>The leaderboard\<close>




section \<open>Sample data\<close>

text \<open>
  A decoder known on finitely many texts: a table of texts with the \<^verbatim>\<open>dict\<close> that
  \<^verbatim>\<open>json.loads\<close> returns for each.  It instantiates the decoder in the examples.
\<close>

definition loads_table :: "(string \<times> pydict) list \<Rightarrow> string \<Rightarrow> decoded" where
  "loads_table table s = (case map_of table s of Some d \<Rightarrow> Decoded d | None \<Rightarrow> JSONDecodeError)"


section \<open>Properties of the string functions\<close>

lemma split_nonempty: "split d s \<noteq> []"
  by (induction s) (auto split: list.splits)

lemma split_no_sep: "d \<notin> set s \<Longrightarrow> split d s = [s]"
  by (induction s) auto

lemma split_append: "split d (pre @ d # suf) = split d pre @ split d suf"
proof (induction pre)
  case Nil
  show ?case by simp
next
  case (Cons c cs)
  obtain p ps where "split d cs = p # ps"
    using split_nonempty [of d cs] by (cases "split d cs") auto
  with Cons show ?case by simp
qed

lemma last_split_append: "last (split d (pre @ d # suf)) = last (split d suf)"
  by (simp add: split_append split_nonempty)

lemma lower_char_dot: "lower_char c = CHR ''.'' \<longleftrightarrow> c = CHR ''.''"
  unfolding lower_char_def by (auto split: option.splits if_splits)

lemma dot_lower_char: "CHR ''.'' = lower_char c \<longleftrightarrow> c = CHR ''.''"
  using lower_char_dot [of c] by auto

lemma dot_lower: "CHR ''.'' \<in> set (lower s) \<longleftrightarrow> CHR ''.'' \<in> set s"
  by (induction s) (auto simp: lower_def dot_lower_char)

lemma lower_append: "lower (a @ b) = lower a @ lower b"
  by (simp add: lower_def)

lemma ext_after_last_dot:
  "CHR ''.'' \<notin> set suf \<Longrightarrow> ext (pre @ CHR ''.'' # suf) = lower suf"
proof -
  assume "CHR ''.'' \<notin> set suf"
  then have "CHR ''.'' \<notin> set (lower suf)" by (simp add: dot_lower)
  then have "split (CHR ''.'') (lower suf) = [lower suf]" by (rule split_no_sep)
  moreover have "lower (pre @ CHR ''.'' # suf) = lower pre @ CHR ''.'' # lower suf"
    by (simp add: lower_def lower_char_def)
  ultimately show ?thesis
    unfolding ext_def by (simp add: last_split_append)
qed

lemma ext_no_dot: "CHR ''.'' \<notin> set f \<Longrightarrow> ext f = lower f"
  unfolding ext_def by (simp add: split_no_sep dot_lower)




lemma category_unsupported:
  "category_of e = Unsupported \<longleftrightarrow> e \<notin> set supported"
  by (auto simp: category_of_def supported_def)










section \<open>Properties of the extractor\<close>












lemma lower_char_idem: "lower_char (lower_char c) = lower_char c"
  unfolding lower_char_def by (auto split: option.splits if_splits)

lemma lower_idem: "lower (lower s) = lower s"
  by (simp add: lower_def lower_char_idem)

lemma try_body_by_category:
  "try_body v acc m =
     (case category_of (ext (fname m)) of
        Code \<Rightarrow> (case read_utf8 m of
                   Inl e \<Rightarrow> (acc, Some e)
                 | Inr t \<Rightarrow> (acc @ header (fname m) '' - CODE'' @ t, None))
      | Pdf \<Rightarrow> (case pdf_text m of
                  Inl e \<Rightarrow> (acc @ header (fname m) '' - DOCUMENT'', Some e)
                | Inr t \<Rightarrow> (acc @ header (fname m) '' - DOCUMENT'' @ t, None))
      | Docx \<Rightarrow> (case docx2txt m of
                   Inl e \<Rightarrow> (acc, Some e)
                 | Inr t \<Rightarrow> (acc @ header (fname m) '' - DOCUMENT'' @ t, None))
      | Slides \<Rightarrow> (case pptx m of
                     Inl e \<Rightarrow> (acc @ header (fname m) '' - SLIDES'', Some e)
                   | Inr s \<Rightarrow> (acc @ header (fname m) '' - SLIDES'' @ slides_text v s, None))
      | Note \<Rightarrow> (case read_utf8 m of
                   Inl e \<Rightarrow> (acc, Some e)
                 | Inr t \<Rightarrow> (acc @ header (fname m) '''' @ t, None))
      | Video \<Rightarrow> (acc @ header (fname m) '' - VIDEO'' @ video_note v, None)
      | Unsupported \<Rightarrow> (acc @ unsupported v (fname m), None))"
  by (simp add: try_body_def category_of_def)


subsection \<open>C1: archives of unsupported files\<close>




subsection \<open>C7: a file whose extraction raises\<close>



subsection \<open>C9: dispatch on the extension\<close>

text \<open>
  Claim C9, as amended.  The extension is the lowercased part of the name after its
  last dot, and the whole lowercased name when the name has no dot.  It does not
  depend on the case of the name, so \<^verbatim>\<open>MAIN.PY\<close> is code.  The branch the \<^verbatim>\<open>try\<close> body
  takes is a function of the extension alone (the last conjunct, for every script).
  A name without a dot is dispatched on its whole lowercased name: it is handled as
  unsupported exactly when that name is not itself one of the nine extensions.
\<close>

theorem C9_dispatch_by_extension:
  "(CHR ''.'' \<notin> set suf \<longrightarrow> ext (pre @ ''.'' @ suf) = lower suf)
   \<and> (CHR ''.'' \<notin> set f \<longrightarrow> ext f = lower f)
   \<and> ext (lower f) = ext f
   \<and> (lower f = lower g \<longrightarrow> ext f = ext g)
   \<and> category_of (ext ''MAIN.PY'') = Code
   \<and> (CHR ''.'' \<notin> set f \<longrightarrow>
        (category_of (ext f) = Unsupported \<longleftrightarrow> lower f \<notin> set supported))
   \<and> try_body v acc m =
       (case category_of (ext (fname m)) of
          Code \<Rightarrow> (case read_utf8 m of
                     Inl e \<Rightarrow> (acc, Some e)
                   | Inr t \<Rightarrow> (acc @ header (fname m) '' - CODE'' @ t, None))
        | Pdf \<Rightarrow> (case pdf_text m of
                    Inl e \<Rightarrow> (acc @ header (fname m) '' - DOCUMENT'', Some e)
                  | Inr t \<Rightarrow> (acc @ header (fname m) '' - DOCUMENT'' @ t, None))
        | Docx \<Rightarrow> (case docx2txt m of
                     Inl e \<Rightarrow> (acc, Some e)
                   | Inr t \<Rightarrow> (acc @ header (fname m) '' - DOCUMENT'' @ t, None))
        | Slides \<Rightarrow> (case pptx m of
                       Inl e \<Rightarrow> (acc @ header (fname m) '' - SLIDES'', Some e)
                     | Inr s \<Rightarrow> (acc @ header (fname m) '' - SLIDES'' @ slides_text v s, None))
        | Note \<Rightarrow> (case read_utf8 m of
                     Inl e \<Rightarrow> (acc, Some e)
                   | Inr t \<Rightarrow> (acc @ header (fname m) '''' @ t, None))
        | Video \<Rightarrow> (acc @ header (fname m) '' - VIDEO'' @ video_note v, None)
        | Unsupported \<Rightarrow> (acc @ unsupported v (fname m), None))"
proof (intro conjI impI)
  show "ext (pre @ ''.'' @ suf) = lower suf" if "CHR ''.'' \<notin> set suf"
    using ext_after_last_dot [OF that, of pre] by simp
  show "ext f = lower f" if "CHR ''.'' \<notin> set f"
    using that by (rule ext_no_dot)
  show "ext (lower f) = ext f"
    by (simp add: ext_def lower_idem)
  show "ext f = ext g" if "lower f = lower g"
    using that by (simp add: ext_def)
  show "category_of (ext ''MAIN.PY'') = Code"
    by (simp add: ext_def lower_def lower_char_def category_of_def)
  show "(category_of (ext f) = Unsupported) = (lower f \<notin> set supported)"
    if "CHR ''.'' \<notin> set f"
    using ext_no_dot [OF that] by (simp add: category_unsupported)
  show "try_body v acc m =
       (case category_of (ext (fname m)) of
          Code \<Rightarrow> (case read_utf8 m of
                     Inl e \<Rightarrow> (acc, Some e)
                   | Inr t \<Rightarrow> (acc @ header (fname m) '' - CODE'' @ t, None))
        | Pdf \<Rightarrow> (case pdf_text m of
                    Inl e \<Rightarrow> (acc @ header (fname m) '' - DOCUMENT'', Some e)
                  | Inr t \<Rightarrow> (acc @ header (fname m) '' - DOCUMENT'' @ t, None))
        | Docx \<Rightarrow> (case docx2txt m of
                     Inl e \<Rightarrow> (acc, Some e)
                   | Inr t \<Rightarrow> (acc @ header (fname m) '' - DOCUMENT'' @ t, None))
        | Slides \<Rightarrow> (case pptx m of
                       Inl e \<Rightarrow> (acc @ header (fname m) '' - SLIDES'', Some e)
                     | Inr s \<Rightarrow> (acc @ header (fname m) '' - SLIDES'' @ slides_text v s, None))
        | Note \<Rightarrow> (case read_utf8 m of
                     Inl e \<Rightarrow> (acc, Some e)
                   | Inr t \<Rightarrow> (acc @ header (fname m) '''' @ t, None))
        | Video \<Rightarrow> (acc @ header (fname m) '' - VIDEO'' @ video_note v, None)
        | Unsupported \<Rightarrow> (acc @ unsupported v (fname m), None))"
    by (rule try_body_by_category)
qed

theorem C9_dispatch_by_extension_witness:
  "ext ''report.final.PDF'' = ''pdf''
   \<and> ext ''README'' = ''readme''
   \<and> category_of (ext ''README'') = Unsupported
   \<and> ext ''Notes.TXT'' = ext ''notes.txt''"
proof -
  have a: "CHR ''.'' \<notin> set ''PDF''" by simp
  have b: "CHR ''.'' \<notin> set ''README''" by simp
  have c: "lower ''Notes.TXT'' = lower ''notes.txt''"
    by (simp add: lower_def lower_char_def)
  have d: "lower ''README'' \<notin> set supported"
    by (simp add: lower_def lower_char_def supported_def)
  note t = C9_dispatch_by_extension [where v = Eval and acc = "[]" and m = "unreadable ''x'' ''x''"]
  from t [where pre = "''report.final''" and suf = "''PDF''" and f = "''README''"] a b d
  have "ext (''report.final'' @ ''.'' @ ''PDF'') = lower ''PDF''" "ext ''README'' = lower ''README''"
    "category_of (ext ''README'') = Unsupported"
    by blast+
  moreover from t [where f = "''Notes.TXT''" and g = "''notes.txt''"] c
  have "ext ''Notes.TXT'' = ext ''notes.txt''" by blast
  ultimately show ?thesis
    by (simp add: lower_def lower_char_def)
qed

text \<open>
  The claim as stated says that a name without a dot always falls to the unsupported
  handling.  A file named \<^verbatim>\<open>py\<close> has no dot and is read as code.
\<close>

theorem C9_no_dot_counterexample:
  "CHR ''.'' \<notin> set ''py''
   \<and> category_of (ext ''py'') = Code
   \<and> walk_files Eval [] [(unreadable ''py'' ''x'')\<lparr>read_utf8 := Inr ''print(1)''\<rparr>]
       = ''\<newline>\<newline>[FILE: py - CODE]\<newline>print(1)''"
  by (simp add: ext_def lower_def lower_char_def category_of_def unreadable_def,
      simp add: process_file_def, simp add: try_body_def ext_def lower_def lower_char_def header_def)


section \<open>Properties of the parser and the normalizer\<close>

lemma dropWhile_until:
  "d \<notin> set pre \<Longrightarrow> dropWhile (\<lambda>c. c \<noteq> d) (pre @ d # rest) = d # rest"
  by (induction pre) auto

lemma dropWhile_absent: "d \<notin> set s \<Longrightarrow> dropWhile (\<lambda>c. c \<noteq> d) s = []"
  by (induction s) auto

lemma json_match_none: "CHR ''{'' \<notin> set raw \<Longrightarrow> json_match raw = None"
  unfolding json_match_def by (simp add: dropWhile_absent)

lemma json_match_first_last:
  assumes "CHR ''{'' \<notin> set pre" and "CHR ''}'' \<notin> set suf"
  shows "json_match (pre @ CHR ''{'' # body @ CHR ''}'' # suf) = Some (CHR ''{'' # body @ [CHR ''}''])"
proof -
  have front: "dropWhile (\<lambda>c. c \<noteq> CHR ''{'') (pre @ CHR ''{'' # body @ CHR ''}'' # suf)
                 = CHR ''{'' # body @ CHR ''}'' # suf"
    using assms(1) by (rule dropWhile_until)
  have "CHR ''}'' \<notin> set (rev suf)" using assms(2) by simp
  then have "dropWhile (\<lambda>c. c \<noteq> CHR ''}'') (rev suf @ CHR ''}'' # rev body) = CHR ''}'' # rev body"
    by (rule dropWhile_until)
  then have tail_eq: "rev (dropWhile (\<lambda>c. c \<noteq> CHR ''}'') (rev (body @ CHR ''}'' # suf))) = body @ [CHR ''}'']"
    by simp
  show ?thesis
    unfolding json_match_def front by (simp add: tail_eq del: rev_append)
qed

lemma parse_reply_decoded:
  "json_match raw = Some m \<Longrightarrow> loads m = Decoded d \<Longrightarrow> parse_reply loads raw = d"
  by (simp add: parse_reply_def)

lemma parsed_decoded:
  "json_match raw = Some m \<Longrightarrow> loads m = Decoded d \<Longrightarrow> parsed loads raw = Inr (Some d)"
  by (simp add: parsed_def)

subsection \<open>C3: a reply with one JSON object\<close>

text \<open>
  Claim C3, as amended.  Let the reply be \<open>pre\<close>, an object text \<^verbatim>\<open>{\<close>\<open>body\<close>\<^verbatim>\<open>}\<close> and \<open>suf\<close>,
  with no opening brace in \<open>pre\<close> and no closing brace in \<open>suf\<close> (in particular when
  no brace stands outside the object).  Then the match is exactly the object text,
  from the first \<^verbatim>\<open>{\<close> to the last \<^verbatim>\<open>}\<close>; and when the decoder accepts it, the parser of
  \<^verbatim>\<open>eval2.py\<close> and \<^verbatim>\<open>evaltable.py\<close> returns the decoded \<^verbatim>\<open>dict\<close> unchanged, and
  \<^verbatim>\<open>parsed\<close> of \<^verbatim>\<open>eval.py\<close> and \<^verbatim>\<open>eval1.py\<close> is that \<^verbatim>\<open>dict\<close>.  No schema is checked:
  the result has the fields of the requested format exactly when the decoded object
  has them.  This holds for every decoder.
\<close>

theorem C3_single_object:
  "CHR ''{'' \<notin> set pre \<and> CHR ''}'' \<notin> set suf \<longrightarrow>
     json_match (pre @ ''{'' @ body @ ''}'' @ suf) = Some (''{'' @ body @ ''}'')
     \<and> (loads (''{'' @ body @ ''}'') = Decoded d \<longrightarrow>
          parse_reply loads (pre @ ''{'' @ body @ ''}'' @ suf) = d
          \<and> parsed loads (pre @ ''{'' @ body @ ''}'' @ suf) = Inr (Some d)
          \<and> (matches_schema (parse_reply loads (pre @ ''{'' @ body @ ''}'' @ suf))
               \<longleftrightarrow> matches_schema d))"
proof (intro impI, elim conjE)
  assume a: "CHR ''{'' \<notin> set pre" and b: "CHR ''}'' \<notin> set suf"
  have m: "json_match (pre @ ''{'' @ body @ ''}'' @ suf) = Some (''{'' @ body @ ''}'')"
    using json_match_first_last [OF a b, of body] by simp
  show "json_match (pre @ ''{'' @ body @ ''}'' @ suf) = Some (''{'' @ body @ ''}'')
     \<and> (loads (''{'' @ body @ ''}'') = Decoded d \<longrightarrow>
          parse_reply loads (pre @ ''{'' @ body @ ''}'' @ suf) = d
          \<and> parsed loads (pre @ ''{'' @ body @ ''}'' @ suf) = Inr (Some d)
          \<and> (matches_schema (parse_reply loads (pre @ ''{'' @ body @ ''}'' @ suf))
               \<longleftrightarrow> matches_schema d))"
    using m parse_reply_decoded [OF m] parsed_decoded [OF m] by auto
qed

theorem C3_single_object_witness:
  \<open>parse_reply
     (loads_table [(''{"total_score": 90, "summary": "ok", "criteria": []}'',
                   [(''total_score'', JInt 90), (''summary'', JStr ''ok''), (''criteria'', JArr [])])])
     ''Here is the result: {"total_score": 90, "summary": "ok", "criteria": []} Done.''
   = [(''total_score'', JInt 90), (''summary'', JStr ''ok''), (''criteria'', JArr [])]
   \<and> matches_schema
       [(''total_score'', JInt 90), (''summary'', JStr ''ok''), (''criteria'', JArr [])]\<close>
proof -
  let ?d = "[(''total_score'', JInt 90), (''summary'', JStr ''ok''), (''criteria'', JArr [])]"
  let ?body = \<open>''"total_score": 90, "summary": "ok", "criteria": []''\<close>
  let ?loads = "loads_table [(''{'' @ ?body @ ''}'', ?d)]"
  have a: "CHR ''{'' \<notin> set ''Here is the result: '' \<and> CHR ''}'' \<notin> set '' Done.''" by simp
  have l: "?loads (''{'' @ ?body @ ''}'') = Decoded ?d" by (simp add: loads_table_def)
  have s: "matches_schema ?d" by (simp add: matches_schema_def)
  from C3_single_object [of "''Here is the result: ''" "'' Done.''" ?body ?loads ?d] a l
  have "parse_reply ?loads (''Here is the result: '' @ ''{'' @ ?body @ ''}'' @ '' Done.'') = ?d"
    by blast
  with s show ?thesis by simp
qed

text \<open>
  The claim as stated promises fields matching the requested schema for every reply
  with one well-formed object.  The reply \<^verbatim>\<open>Verdict: {"verdict": "good"}\<close> holds one
  well-formed object and no other brace; the parser returns \<^verbatim>\<open>{"verdict": "good"}\<close>,
  which has none of \<^verbatim>\<open>criteria\<close>, \<^verbatim>\<open>total_score\<close>, \<^verbatim>\<open>summary\<close>.
\<close>

theorem C3_schema_counterexample:
  \<open>json_match ''Verdict: {"verdict": "good"}'' = Some ''{"verdict": "good"}''
   \<and> parse_reply (loads_table [(''{"verdict": "good"}'', [(''verdict'', JStr ''good'')])])
        ''Verdict: {"verdict": "good"}'' = [(''verdict'', JStr ''good'')]
   \<and> \<not> matches_schema
        (parse_reply (loads_table [(''{"verdict": "good"}'', [(''verdict'', JStr ''good'')])])
           ''Verdict: {"verdict": "good"}'')\<close>
proof -
  have m: \<open>json_match ''Verdict: {"verdict": "good"}'' = Some ''{"verdict": "good"}''\<close>
    by (simp add: json_match_def)
  show ?thesis
    unfolding parse_reply_def m by (simp add: loads_table_def matches_schema_def)
qed

subsection \<open>C4: a reply without an opening brace\<close>

text \<open>
  Claim C4.  When the reply holds no \<^verbatim>\<open>{\<close>, nothing matches, and the parser of
  \<^verbatim>\<open>eval2.py\<close> and \<^verbatim>\<open>evaltable.py\<close> returns \<^verbatim>\<open>{"error": "Invalid JSON", "raw": raw}\<close>
  with the reply unmodified, whatever the decoder; \<^verbatim>\<open>evaluate_submission\<close> returns it
  and does not raise (its result is \<open>Inr\<close>).
\<close>

theorem C4_no_brace:
  "CHR ''{'' \<notin> set raw \<longrightarrow>
     json_match raw = None
     \<and> parse_reply loads raw = [(''error'', JStr ''Invalid JSON''), (''raw'', JStr raw)]
     \<and> (invoke env (prompt v rubric_text submission_text) = Inr raw \<longrightarrow>
          evaluate_submission v env rubric_text submission_text
            = Inr [(''error'', JStr ''Invalid JSON''), (''raw'', JStr raw)])"
proof (intro impI)
  assume "CHR ''{'' \<notin> set raw"
  then have m: "json_match raw = None" by (rule json_match_none)
  then have p: "parse_reply l raw = [(''error'', JStr ''Invalid JSON''), (''raw'', JStr raw)]" for l
    by (simp add: parse_reply_def invalid_json_def)
  show "json_match raw = None
     \<and> parse_reply loads raw = [(''error'', JStr ''Invalid JSON''), (''raw'', JStr raw)]
     \<and> (invoke env (prompt v rubric_text submission_text) = Inr raw \<longrightarrow>
          evaluate_submission v env rubric_text submission_text
            = Inr [(''error'', JStr ''Invalid JSON''), (''raw'', JStr raw)])"
    using m p by (simp add: evaluate_submission_def)
qed

theorem C4_no_brace_witness:
  "parse_reply (loads_table []) ''I cannot evaluate this submission.''
     = [(''error'', JStr ''Invalid JSON''), (''raw'', JStr ''I cannot evaluate this submission.'')]
   \<and> evaluate_submission Eval2
        \<lparr>invoke = (\<lambda>p. Inr ''I cannot evaluate this submission.''), json_loads = loads_table []\<rparr>
        ''Design - 100'' ''print(1)''
     = Inr [(''error'', JStr ''Invalid JSON''), (''raw'', JStr ''I cannot evaluate this submission.'')]"
proof -
  let ?raw = "''I cannot evaluate this submission.''"
  let ?env = "\<lparr>invoke = (\<lambda>p. Inr ?raw), json_loads = loads_table []\<rparr>"
  have a: "CHR ''{'' \<notin> set ?raw" by simp
  have i: "invoke ?env (prompt Eval2 ''Design - 100'' ''print(1)'') = Inr ?raw" by simp
  from C4_no_brace [of ?raw "loads_table []" ?env Eval2 "''Design - 100''" "''print(1)''"] a i
  show ?thesis by blast
qed

subsection \<open>Rounding to a double\<close>















subsection \<open>C2: rescaling the scores\<close>





section \<open>Properties of the prompt\<close>

subsection \<open>C8: the prompt and its cutoff\<close>

text \<open>
  Claim C8.  In every script the prompt is a fixed text, the rubric as given, a fixed
  text, the first 20000 characters of the submission text, and a fixed text.  A
  submission text of at most 20000 characters is embedded whole.  What stands beyond
  the first 20000 characters has no influence on the prompt: two submission texts
  that agree on their first 20000 characters give the same prompt, hence the same
  outcome of \<^verbatim>\<open>evaluate_submission\<close>, and the length of the prompt is bounded
  accordingly.
\<close>

theorem C8_prompt_cutoff:
  "prompt v rubric_text submission_text =
     prompt_head v @ rubric_text @ prompt_mid v @ take 20000 submission_text @ prompt_tail v
   \<and> (length submission_text \<le> 20000 \<longrightarrow>
        prompt v rubric_text submission_text =
          prompt_head v @ rubric_text @ prompt_mid v @ submission_text @ prompt_tail v)
   \<and> (take 20000 submission_text = take 20000 other_text \<longrightarrow>
        prompt v rubric_text submission_text = prompt v rubric_text other_text)
   \<and> (length kept = 20000 \<longrightarrow>
        prompt v rubric_text (kept @ beyond) = prompt v rubric_text kept)
   \<and> (take 20000 submission_text = take 20000 other_text \<longrightarrow>
        evaluate_submission v env rubric_text submission_text
          = evaluate_submission v env rubric_text other_text)
   \<and> length (prompt v rubric_text submission_text) =
        length (prompt_head v) + length rubric_text + length (prompt_mid v)
        + min 20000 (length submission_text) + length (prompt_tail v)"
proof -
  have same: "prompt v rubric_text a = prompt v rubric_text b" if "take 20000 a = take 20000 b" for a b
    using that by (simp add: prompt_def)
  have "prompt v rubric_text (kept @ beyond) = prompt v rubric_text kept" if "length kept = 20000"
    using that by (intro same) simp
  moreover have "evaluate_submission v env rubric_text submission_text
          = evaluate_submission v env rubric_text other_text"
    if "take 20000 submission_text = take 20000 other_text"
    using same [OF that] by (simp add: evaluate_submission_def)
  moreover have "length (prompt v rubric_text submission_text) =
        length (prompt_head v) + length rubric_text + length (prompt_mid v)
        + min 20000 (length submission_text) + length (prompt_tail v)"
    by (simp add: prompt_def min_def)
  ultimately show ?thesis
    using same [of submission_text other_text] by (simp add: prompt_def)
qed

theorem C8_prompt_cutoff_witness:
  "prompt Eval2 ''Design - 100'' (replicate 20000 (CHR ''a'') @ ''SECRET'')
     = prompt Eval2 ''Design - 100'' (replicate 20000 (CHR ''a''))
   \<and> prompt Eval ''Design - 100'' ''print(1)''
     = prompt_head Eval @ ''Design - 100'' @ prompt_mid Eval @ ''print(1)'' @ prompt_tail Eval"
proof -
  have a: "length (replicate 20000 (CHR ''a'')) = 20000" by simp
  have b: "length ''print(1)'' \<le> 20000" by simp
  from C8_prompt_cutoff [of Eval2 "''Design - 100''" _ _ "replicate 20000 (CHR ''a'')" "''SECRET''"] a
  have "prompt Eval2 ''Design - 100'' (replicate 20000 (CHR ''a'') @ ''SECRET'')
     = prompt Eval2 ''Design - 100'' (replicate 20000 (CHR ''a''))"
    by blast
  moreover from C8_prompt_cutoff [of Eval "''Design - 100''" "''print(1)''"] b
  have "prompt Eval ''Design - 100'' ''print(1)''
     = prompt_head Eval @ ''Design - 100'' @ prompt_mid Eval @ ''print(1)'' @ prompt_tail Eval"
    by blast
  ultimately show ?thesis by blast
qed


section \<open>Properties of the loop over the submissions\<close>

lemma eval2_loop_acc:
  "eval2_loop env r acc us = acc @ eval2_loop env r [] us"
proof (induction us arbitrary: acc)
  case Nil
  show ?case by simp
next
  case (Cons u us)
  show ?case
    using Cons [of "acc @ [error_entry u e]" for e] Cons [of "acc @ [x]" for x]
      Cons [of "[error_entry u e]" for e] Cons [of "[x]" for x]
    by (cases "eval2_try env r u") simp_all
qed

lemma eval2_results_Cons:
  "eval2_results env r (u # us) =
     (case eval2_try env r u of Inl e \<Rightarrow> [error_entry u e] | Inr x \<Rightarrow> [x]) @ eval2_results env r us"
  unfolding eval2_results_def
  by (cases "eval2_try env r u") (simp_all add: eval2_loop_acc [of env r "[x]" for x])

lemma eval2_results_append:
  "eval2_results env r (xs @ ys) = eval2_results env r xs @ eval2_results env r ys"
proof (induction xs)
  case Nil
  show ?case by (simp add: eval2_results_def)
next
  case (Cons u xs)
  then show ?case by (simp add: eval2_results_Cons)
qed

lemma eval2_results_length: "length (eval2_results env r us) = length us"
proof (induction us)
  case Nil
  show ?case by (simp add: eval2_results_def)
next
  case (Cons u us)
  then show ?case by (cases "eval2_try env r u") (simp_all add: eval2_results_Cons)
qed

lemma evaltable_loop_acc:
  "evaltable_loop env r acc us = acc @ evaltable_loop env r [] us"
proof (induction us arbitrary: acc)
  case Nil
  show ?case by simp
next
  case (Cons u us)
  show ?case
  proof (cases "evaltable_try env r u")
    case (Inl e)
    then show ?thesis
      using Cons [of "acc @ [error_entry u e]"] Cons [of "[error_entry u e]"] by simp
  next
    case (Inr opt)
    then show ?thesis
      using Cons [of "acc @ [x]" for x] Cons [of "[x]" for x] Cons [of acc]
      by (cases opt) simp_all
  qed
qed

lemma evaltable_results_Cons:
  "evaltable_results env r (u # us) =
     (case evaltable_try env r u of
        Inl e \<Rightarrow> [error_entry u e]
      | Inr None \<Rightarrow> []
      | Inr (Some x) \<Rightarrow> [x]) @ evaltable_results env r us"
  unfolding evaltable_results_def
  by (simp add: evaltable_loop_acc [of env r "[x]" for x] split: sum.splits option.splits)

lemma evaltable_results_append:
  "evaltable_results env r (xs @ ys) = evaltable_results env r xs @ evaltable_results env r ys"
proof (induction xs)
  case Nil
  show ?case by (simp add: evaltable_results_def)
next
  case (Cons u xs)
  then show ?case by (simp add: evaltable_results_Cons)
qed

lemma eval2_results_raise:
  "eval2_try env r u = Inl e \<Longrightarrow>
   eval2_results env r (before @ u # rest)
     = eval2_results env r before @ [error_entry u e] @ eval2_results env r rest"
  by (simp add: eval2_results_append eval2_results_Cons)

lemma evaltable_results_raise:
  "evaltable_try env r u = Inl e \<Longrightarrow>
   evaltable_results env r (before @ u # rest)
     = evaltable_results env r before @ [error_entry u e] @ evaltable_results env r rest"
  by (simp add: evaltable_results_append evaltable_results_Cons)

lemma evaltable_results_skip:
  "evaltable_try env r u = Inr None \<Longrightarrow>
   evaltable_results env r (before @ u # rest)
     = evaltable_results env r before @ evaltable_results env r rest"
  by (simp add: evaltable_results_append evaltable_results_Cons)

lemma try_raises:
  "extract_submission_text Eval2 u = Inl e \<Longrightarrow> eval2_try env r u = Inl e"
  "extract_submission_text Eval2 u = Inr text \<Longrightarrow> invoke env (prompt Eval2 r text) = Inl e \<Longrightarrow>
     eval2_try env r u = Inl e"
  "extract_submission_text Evaltable u = Inl e \<Longrightarrow> evaltable_try env r u = Inl e"
  "extract_submission_text Evaltable u = Inr text \<Longrightarrow>
     invoke env (prompt Evaltable r text) = Inl e \<Longrightarrow> evaltable_try env r u = Inl e"
  by (simp_all add: eval2_try_def evaltable_try_def evaluate_submission_def)

lemma evaltable_try_invalid:
  "extract_submission_text Evaltable u = Inr text \<Longrightarrow>
   evaluate_submission Evaltable env r text = Inr result \<Longrightarrow>
   map_of result ''status'' = Some (JStr ''Invalid Submission'') \<Longrightarrow>
   evaltable_try env r u = Inr None"
  by (simp add: evaltable_try_def)

subsection \<open>C6: a submission whose processing raises\<close>

text \<open>
  Claim C6.  In \<^verbatim>\<open>eval2.py\<close> and in \<^verbatim>\<open>evaltable.py\<close>, when the \<^verbatim>\<open>try\<close> body raises an
  exception with message \<open>e\<close> on a submission, the results list receives for it the
  entry with the archive's name, score 0, the summary \<^verbatim>\<open>Error: e\<close> and empty details,
  between the results of the submissions before it and of those after it: the loop
  goes on.  The body raises when the extraction raises and when the remote call
  raises.  In \<^verbatim>\<open>eval2.py\<close> every submission has its entry.
\<close>

theorem C6_error_entry:
  "(eval2_try env rubric_text u = Inl e \<longrightarrow>
      eval2_results env rubric_text (before @ u # rest) =
        eval2_results env rubric_text before
        @ [\<lparr>Team_Name = name u, Score = JInt 0, Summary = JStr (''Error: '' @ e), Details = []\<rparr>]
        @ eval2_results env rubric_text rest)
   \<and> (evaltable_try env rubric_text u = Inl e \<longrightarrow>
      evaltable_results env rubric_text (before @ u # rest) =
        evaltable_results env rubric_text before
        @ [\<lparr>Team_Name = name u, Score = JInt 0, Summary = JStr (''Error: '' @ e), Details = []\<rparr>]
        @ evaltable_results env rubric_text rest)
   \<and> (extract_submission_text Eval2 u = Inl e \<longrightarrow> eval2_try env rubric_text u = Inl e)
   \<and> (extract_submission_text Eval2 u = Inr text
        \<and> invoke env (prompt Eval2 rubric_text text) = Inl e \<longrightarrow>
        eval2_try env rubric_text u = Inl e)
   \<and> (extract_submission_text Evaltable u = Inl e \<longrightarrow> evaltable_try env rubric_text u = Inl e)
   \<and> (extract_submission_text Evaltable u = Inr text
        \<and> invoke env (prompt Evaltable rubric_text text) = Inl e \<longrightarrow>
        evaltable_try env rubric_text u = Inl e)
   \<and> length (eval2_results env rubric_text uploads) = length uploads"
proof (intro conjI impI)
  show "eval2_results env rubric_text (before @ u # rest) =
        eval2_results env rubric_text before
        @ [\<lparr>Team_Name = name u, Score = JInt 0, Summary = JStr (''Error: '' @ e), Details = []\<rparr>]
        @ eval2_results env rubric_text rest"
    if "eval2_try env rubric_text u = Inl e"
    using eval2_results_raise [OF that, of before rest] by (simp add: error_entry_def)
  show "evaltable_results env rubric_text (before @ u # rest) =
        evaltable_results env rubric_text before
        @ [\<lparr>Team_Name = name u, Score = JInt 0, Summary = JStr (''Error: '' @ e), Details = []\<rparr>]
        @ evaltable_results env rubric_text rest"
    if "evaltable_try env rubric_text u = Inl e"
    using evaltable_results_raise [OF that, of before rest] by (simp add: error_entry_def)
  show "eval2_try env rubric_text u = Inl e" if "extract_submission_text Eval2 u = Inl e"
    using that by (rule try_raises)
  show "eval2_try env rubric_text u = Inl e"
    if "extract_submission_text Eval2 u = Inr text
        \<and> invoke env (prompt Eval2 rubric_text text) = Inl e"
    using that try_raises(2) by blast
  show "evaltable_try env rubric_text u = Inl e" if "extract_submission_text Evaltable u = Inl e"
    using that by (rule try_raises)
  show "evaltable_try env rubric_text u = Inl e"
    if "extract_submission_text Evaltable u = Inr text
        \<and> invoke env (prompt Evaltable rubric_text text) = Inl e"
    using that try_raises(4) by blast
  show "length (eval2_results env rubric_text uploads) = length uploads"
    by (rule eval2_results_length)
qed

theorem C6_error_entry_witness:
  \<open>eval2_results
     \<lparr>invoke = (\<lambda>p. Inr ''{"total_score": 90, "summary": "ok"}''),
      json_loads = loads_table [(''{"total_score": 90, "summary": "ok"}'',
                                 [(''total_score'', JInt 90), (''summary'', JStr ''ok'')])]\<rparr>
     ''Design - 100''
     [\<lparr>name = ''alpha.zip'', unzipped = Inr []\<rparr>,
      \<lparr>name = ''beta.zip'', unzipped = Inl ''File is not a zip file''\<rparr>,
      \<lparr>name = ''gamma.zip'', unzipped = Inr []\<rparr>]
   = [\<lparr>Team_Name = ''alpha'', Score = JInt 90, Summary = JStr ''ok'',
       Details = [(''total_score'', JInt 90), (''summary'', JStr ''ok'')]\<rparr>,
      \<lparr>Team_Name = ''beta.zip'', Score = JInt 0,
       Summary = JStr ''Error: File is not a zip file'', Details = []\<rparr>,
      \<lparr>Team_Name = ''gamma'', Score = JInt 90, Summary = JStr ''ok'',
       Details = [(''total_score'', JInt 90), (''summary'', JStr ''ok'')]\<rparr>]\<close>
proof -
  let ?raw = \<open>''{"total_score": 90, "summary": "ok"}''\<close>
  let ?d = "[(''total_score'', JInt 90), (''summary'', JStr ''ok'')]"
  let ?env = "\<lparr>invoke = (\<lambda>p. Inr ?raw), json_loads = loads_table [(?raw, ?d)]\<rparr>"
  let ?beta = "\<lparr>name = ''beta.zip'', unzipped = Inl ''File is not a zip file''\<rparr>"
  have m: "json_match ?raw = Some ?raw"
    by (simp add: json_match_def)
  have ev: "evaluate_submission Eval2 ?env r t = Inr ?d" for r t
    unfolding evaluate_submission_def parse_reply_def
    by (simp add: m) (simp add: loads_table_def)
  have ok: "eval2_try ?env r \<lparr>name = n, unzipped = Inr []\<rparr>
              = Inr \<lparr>Team_Name = replace ''.zip'' '''' n, Score = JInt 90, Summary = JStr ''ok'',
                     Details = ?d\<rparr>" for r n
    unfolding eval2_try_def
    by (simp add: extract_submission_text_def ev dict_get_def)
  have one: "eval2_results ?env r [\<lparr>name = n, unzipped = Inr []\<rparr>]
              = [\<lparr>Team_Name = replace ''.zip'' '''' n, Score = JInt 90, Summary = JStr ''ok'',
                  Details = ?d\<rparr>]" for r n
    by (simp add: eval2_results_def ok)
  have x: "extract_submission_text Eval2 ?beta = Inl ''File is not a zip file''"
    by (simp add: extract_submission_text_def)
  have names: "replace ''.zip'' '''' ''alpha.zip'' = ''alpha''"
    "replace ''.zip'' '''' ''gamma.zip'' = ''gamma''"
    by simp_all
  note C6 = C6_error_entry [of ?env "''Design - 100''" ?beta "''File is not a zip file''"
      "[\<lparr>name = ''alpha.zip'', unzipped = Inr []\<rparr>]" "[\<lparr>name = ''gamma.zip'', unzipped = Inr []\<rparr>]"]
  from C6 x
  have "eval2_results ?env ''Design - 100''
          ([\<lparr>name = ''alpha.zip'', unzipped = Inr []\<rparr>] @ ?beta # [\<lparr>name = ''gamma.zip'', unzipped = Inr []\<rparr>])
        = eval2_results ?env ''Design - 100'' [\<lparr>name = ''alpha.zip'', unzipped = Inr []\<rparr>]
          @ [\<lparr>Team_Name = name ?beta, Score = JInt 0,
              Summary = JStr (''Error: '' @ ''File is not a zip file''), Details = []\<rparr>]
          @ eval2_results ?env ''Design - 100'' [\<lparr>name = ''gamma.zip'', unzipped = Inr []\<rparr>]"
    by blast
  then show ?thesis
    by (simp add: one names)
qed


subsection \<open>C10: an invalid submission leaves no entry\<close>

text \<open>
  Claim C10.  In \<^verbatim>\<open>evaltable.py\<close>, when the decoded result of a submission has the
  status \<^verbatim>\<open>Invalid Submission\<close>, the loop takes its \<^verbatim>\<open>continue\<close>: the results list is
  that of the other submissions, with no entry for this one.  A submission whose
  processing raises does get an entry, with score 0.
\<close>

theorem C10_invalid_submission:
  "(extract_submission_text Evaltable u = Inr text
      \<and> evaluate_submission Evaltable env rubric_text text = Inr result
      \<and> map_of result ''status'' = Some (JStr ''Invalid Submission'') \<longrightarrow>
      evaltable_try env rubric_text u = Inr None
      \<and> evaltable_results env rubric_text (before @ u # rest) =
          evaltable_results env rubric_text before @ evaltable_results env rubric_text rest)
   \<and> (evaltable_try env rubric_text u = Inl e \<longrightarrow>
      evaltable_results env rubric_text (before @ u # rest) =
        evaltable_results env rubric_text before
        @ [\<lparr>Team_Name = name u, Score = JInt 0, Summary = JStr (''Error: '' @ e), Details = []\<rparr>]
        @ evaltable_results env rubric_text rest)"
proof (intro conjI impI)
  assume a: "extract_submission_text Evaltable u = Inr text
      \<and> evaluate_submission Evaltable env rubric_text text = Inr result
      \<and> map_of result ''status'' = Some (JStr ''Invalid Submission'')"
  then show skip: "evaltable_try env rubric_text u = Inr None"
    using evaltable_try_invalid by blast
  then show "evaltable_results env rubric_text (before @ u # rest) =
          evaltable_results env rubric_text before @ evaltable_results env rubric_text rest"
    by (rule evaltable_results_skip)
next
  assume "evaltable_try env rubric_text u = Inl e"
  then show "evaltable_results env rubric_text (before @ u # rest) =
        evaltable_results env rubric_text before
        @ [\<lparr>Team_Name = name u, Score = JInt 0, Summary = JStr (''Error: '' @ e), Details = []\<rparr>]
        @ evaltable_results env rubric_text rest"
    using evaltable_results_raise [of env rubric_text u e before rest] by (simp add: error_entry_def)
qed

theorem C10_invalid_submission_witness:
  \<open>evaltable_results
     \<lparr>invoke = (\<lambda>p. Inr ''{"status": "Invalid Submission", "reason": "a resume"}''),
      json_loads = loads_table [(''{"status": "Invalid Submission", "reason": "a resume"}'',
                                 [(''status'', JStr ''Invalid Submission''),
                                  (''reason'', JStr ''a resume'')])]\<rparr>
     ''Design - 100''
     [\<lparr>name = ''cv.zip'', unzipped = Inr []\<rparr>,
      \<lparr>name = ''beta.zip'', unzipped = Inl ''File is not a zip file''\<rparr>]
   = [\<lparr>Team_Name = ''beta.zip'', Score = JInt 0,
       Summary = JStr ''Error: File is not a zip file'', Details = []\<rparr>]\<close>
proof -
  let ?raw = \<open>''{"status": "Invalid Submission", "reason": "a resume"}''\<close>
  let ?d = "[(''status'', JStr ''Invalid Submission''), (''reason'', JStr ''a resume'')]"
  let ?env = "\<lparr>invoke = (\<lambda>p. Inr ?raw), json_loads = loads_table [(?raw, ?d)]\<rparr>"
  let ?cv = "\<lparr>name = ''cv.zip'', unzipped = Inr []\<rparr>"
  let ?beta = "\<lparr>name = ''beta.zip'', unzipped = Inl ''File is not a zip file''\<rparr>"
  have m: "json_match ?raw = Some ?raw"
    by (simp add: json_match_def)
  have ev: "evaluate_submission Evaltable ?env ''Design - 100'' [] = Inr ?d"
    unfolding evaluate_submission_def parse_reply_def
    by (simp add: m) (simp add: loads_table_def)
  have x: "extract_submission_text Evaltable ?cv = Inr []"
    by (simp add: extract_submission_text_def strip_def)
  have st: "map_of ?d ''status'' = Some (JStr ''Invalid Submission'')" by simp
  have b: "evaltable_try ?env ''Design - 100'' ?beta = Inl ''File is not a zip file''"
    by (simp add: evaltable_try_def extract_submission_text_def)
  have nil: "evaltable_results ?env ''Design - 100'' [] = []"
    by (simp add: evaltable_results_def)
  from C10_invalid_submission [of ?cv "[]" ?env "''Design - 100''" ?d "[]" "[?beta]"] x ev st
  have 1: "evaltable_results ?env ''Design - 100'' ([] @ ?cv # [?beta])
             = evaltable_results ?env ''Design - 100'' [] @ evaltable_results ?env ''Design - 100'' [?beta]"
    by blast
  from C10_invalid_submission [of ?beta _ ?env "''Design - 100''" _ "[]" "[]" "''File is not a zip file''"] b
  have 2: "evaltable_results ?env ''Design - 100'' ([] @ ?beta # [])
             = evaltable_results ?env ''Design - 100'' []
               @ [\<lparr>Team_Name = name ?beta, Score = JInt 0,
                   Summary = JStr (''Error: '' @ ''File is not a zip file''), Details = []\<rparr>]
               @ evaltable_results ?env ''Design - 100'' []"
    by blast
  from 1 2 show ?thesis
    by (simp add: nil)
qed


section \<open>Properties of the leaderboard\<close>







subsection \<open>C5: the leaderboard\<close>



end
